theory Spec2Isabelle
  imports Complex_Main
begin

section \<open>Python values handled by the server\<close>

text \<open>
  The server in \<^verbatim>\<open>src/server/samsim_server.py\<close> never computes with the values it
  receives: it decodes JSON, stores the decoded objects, compares a discriminator with
  string literals, uses identifiers as dictionary keys and serialises what it stored.
  The values are modelled as the objects \<^verbatim>\<open>json.loads\<close> builds. A float is kept by its
  exact value (every finite float is a rational), with the negative zero, the infinities
  and the one NaN object of the \<^verbatim>\<open>json\<close> module apart.
\<close>

datatype pyfloat = FVal rat | FNegZero | FPosInf | FNegInf | FNaN

datatype pyval =
    PNone
  | PBool bool
  | PInt int
  | PFloat pyfloat
  | PStr string
  | PList "pyval list"
  | PDict "(pyval \<times> pyval) list"

text \<open>The exceptions that the modelled code raises itself or receives from its I/O calls.\<close>

datatype exn =
    JSONDecodeError
  | UnicodeDecodeError
  | AttributeError
  | TypeError
  | KeyError
  | OSError
  | ConnectionClosed
  | RuntimeError

subsection \<open>Dictionaries\<close>

text \<open>
  A Python \<^verbatim>\<open>dict\<close> keeps its items in insertion order, and finds a key by hash and
  equality: \<^verbatim>\<open>True == 1 == 1.0\<close>, \<^verbatim>\<open>0 == 0.0 == -0.0\<close>, \<^verbatim>\<open>None\<close> equals only itself, a string
  equals only the same string; lists and dicts are unhashable. \<open>key_class\<close> maps a value
  to what decides that comparison, \<open>None\<close> for an unhashable value.
\<close>

datatype keyclass = KNone | KNum rat | KPosInf | KNegInf | KNaN | KStr string

fun key_class :: "pyval \<Rightarrow> keyclass option" where
  "key_class PNone = Some KNone"
| "key_class (PBool b) = Some (KNum (if b then 1 else 0))"
| "key_class (PInt i) = Some (KNum (of_int i))"
| "key_class (PFloat (FVal q)) = Some (KNum q)"
| "key_class (PFloat FNegZero) = Some (KNum 0)"
| "key_class (PFloat FPosInf) = Some KPosInf"
| "key_class (PFloat FNegInf) = Some KNegInf"
| "key_class (PFloat FNaN) = Some KNaN"
| "key_class (PStr s) = Some (KStr s)"
| "key_class (PList xs) = None"
| "key_class (PDict d) = None"

definition hashable :: "pyval \<Rightarrow> bool" where
  "hashable v = (key_class v \<noteq> None)"

definition key_eq :: "pyval \<Rightarrow> pyval \<Rightarrow> bool" where
  "key_eq a b = (key_class a = key_class b)"

text \<open>A dictionary is the list of its items, in insertion order.\<close>

type_synonym 'v pydict = "(pyval \<times> 'v) list"

fun dict_get :: "'v pydict \<Rightarrow> pyval \<Rightarrow> 'v option" where
  "dict_get [] k = None"
| "dict_get ((k', v) # d) k = (if key_eq k' k then Some v else dict_get d k)"

text \<open>
  \<^verbatim>\<open>d[k] = v\<close>: the value of an existing key is replaced where it stands (the stored key
  object is kept), a new key is appended.
\<close>

fun dict_set :: "'v pydict \<Rightarrow> pyval \<Rightarrow> 'v \<Rightarrow> 'v pydict" where
  "dict_set [] k v = [(k, v)]"
| "dict_set ((k', v') # d) k v =
     (if key_eq k' k then (k', v) # d else (k', v') # dict_set d k v)"

definition dict_keys :: "'v pydict \<Rightarrow> pyval list" where
  "dict_keys d = map fst d"

text \<open>\<^verbatim>\<open>k in d\<close> raises \<^verbatim>\<open>TypeError\<close> for an unhashable \<open>k\<close>.\<close>

definition py_in :: "pyval \<Rightarrow> 'v pydict \<Rightarrow> exn + bool" where
  "py_in k d = (if hashable k then Inr (dict_get d k \<noteq> None) else Inl TypeError)"

text \<open>\<^verbatim>\<open>d.get(name, default)\<close> on a dictionary, for a string literal \<open>name\<close>.\<close>

definition dget :: "pyval pydict \<Rightarrow> string \<Rightarrow> pyval \<Rightarrow> pyval" where
  "dget d name dflt = (case dict_get d (PStr name) of Some v \<Rightarrow> v | None \<Rightarrow> dflt)"

text \<open>
  \<^verbatim>\<open>x.items()\<close> on any decoded value: only a dict has the method, every other JSON
  value raises \<^verbatim>\<open>AttributeError\<close>. The same holds of \<^verbatim>\<open>x.get\<close>, which the handlers below
  model by a case distinction on the value.
\<close>

fun py_items :: "pyval \<Rightarrow> exn + (pyval \<times> pyval) list" where
  "py_items (PDict d) = Inr d"
| "py_items _ = Inl AttributeError"

section \<open>The state of the server\<close>

text \<open>The dataclass \<^verbatim>\<open>SAMSiteState\<close>; \<open>new_site\<close> is its constructor with the defaults.\<close>

record SAMSiteState =
  site_id :: pyval
  system_state :: pyval
  radar_mode :: pyval
  antenna_az :: pyval
  antenna_el :: pyval
  targets :: pyval
  tracked_target :: pyval
  track_quality :: pyval
  missiles_ready :: pyval
  missiles_in_flight :: pyval
  engagement_auth :: pyval
  auto_engage :: pyval

definition new_site :: "pyval \<Rightarrow> SAMSiteState" where
  "new_site sid =
     \<lparr> site_id = sid,
       system_state = PInt 0,
       radar_mode = PInt 0,
       antenna_az = PFloat (FVal 0),
       antenna_el = PFloat (FVal 5),
       targets = PList [],
       tracked_target = PNone,
       track_quality = PInt 0,
       missiles_ready = PInt 6,
       missiles_in_flight = PInt 0,
       engagement_auth = PBool False,
       auto_engage = PBool False \<rparr>"

text \<open>
  The fields of \<^verbatim>\<open>SAMSIMServer\<close> that the handlers read or write. A subscriber is known
  by a connection number; the registry \<^verbatim>\<open>ws_clients\<close> (a Python set) is the list of its
  members in the order the set iterates them.
\<close>

type_synonym client = nat

record SAMSIMServer =
  running :: bool
  dcs_connected :: bool
  last_dcs_update :: pyval
  mission_time :: pyval
  paused :: pyval
  sites :: "SAMSiteState pydict"
  world_objects :: pyval
  ws_clients :: "client list"

text \<open>The state after \<^verbatim>\<open>__init__\<close> and the first line of \<^verbatim>\<open>start\<close>.\<close>

definition init_server :: SAMSIMServer where
  "init_server =
     \<lparr> running = True,
       dcs_connected = False,
       last_dcs_update = PInt 0,
       mission_time = PInt 0,
       paused = PBool False,
       sites = [],
       world_objects = PList [],
       ws_clients = [] \<rparr>"

text \<open>
  What a handler does besides changing the state: log records, the state dictionary it
  builds under the lock, a call of \<^verbatim>\<open>json.dumps\<close> on it, a datagram handed to the socket
  of the simulation, a call of \<^verbatim>\<open>send\<close> on a subscriber.
\<close>

datatype effect =
    LogInfo string
  | LogDebug string
  | LogWarning string
  | LogError string exn
  | Snapshot pyval
  | Serialize pyval
  | UdpSend pyval
  | WsSend client string

section \<open>Ingestion: \<^verbatim>\<open>_process_dcs_data\<close>\<close>

text \<open>
  The eleven assignments of the \<^verbatim>\<open>status\<close> branch, for a site payload that is a dict.
\<close>

definition update_site :: "pyval pydict \<Rightarrow> SAMSiteState \<Rightarrow> SAMSiteState" where
  "update_site site_data site =
     site\<lparr> system_state := dget site_data ''systemState'' (PInt 0),
           radar_mode := dget site_data ''radarMode'' (PInt 0),
           antenna_az := dget site_data ''antennaAz'' (PInt 0),
           antenna_el := dget site_data ''antennaEl'' (PInt 5),
           targets := dget site_data ''targets'' (PList []),
           tracked_target := dget site_data ''tracked'' PNone,
           track_quality := dget site_data ''trackQuality'' (PInt 0),
           missiles_ready := dget site_data ''missilesReady'' (PInt 6),
           missiles_in_flight := dget site_data ''missilesInFlight'' (PInt 0),
           engagement_auth := dget site_data ''engAuth'' (PBool False),
           auto_engage := dget site_data ''autoEng'' (PBool False) \<rparr>"

text \<open>
  The loop over \<^verbatim>\<open>sites_data.items()\<close>. It returns the entity mapping as the loop left
  it and the exception that ended it, if any. A payload that is not a dict raises at
  its first \<^verbatim>\<open>site_data.get\<close>, before any field is assigned but after the record was
  created; the entries after it are not reached.
\<close>

fun update_sites ::
  "(pyval \<times> pyval) list \<Rightarrow> SAMSiteState pydict \<Rightarrow> SAMSiteState pydict \<times> exn option" where
  "update_sites [] sts = (sts, None)"
| "update_sites ((sid, site_data) # rest) sts =
     (case py_in sid sts of
        Inl e \<Rightarrow> (sts, Some e)
      | Inr present \<Rightarrow>
          (let sts1 = (if \<not> present then dict_set sts sid (new_site sid) else sts) in
           case dict_get sts1 sid of
             None \<Rightarrow> (sts1, Some KeyError)
           | Some site \<Rightarrow>
               (case site_data of
                  PDict d \<Rightarrow> update_sites rest (dict_set sts1 sid (update_site d site))
                | _ \<Rightarrow> (sts1, Some AttributeError))))"

text \<open>The \<^verbatim>\<open>status\<close> branch, for a message that is a dict.\<close>

definition apply_status :: "pyval pydict \<Rightarrow> SAMSIMServer \<Rightarrow> SAMSIMServer \<times> exn option" where
  "apply_status message s =
     (let s1 = s\<lparr> dcs_connected := True,
                  mission_time := dget message ''time'' (PInt 0),
                  paused := dget message ''paused'' (PBool False),
                  world_objects := dget message ''worldObjects'' (PList []) \<rparr>
      in case py_items (dget message ''sites'' (PDict [])) of
           Inl e \<Rightarrow> (s1, Some e)
         | Inr items \<Rightarrow>
             (case update_sites items (sites s1) of
                (sts, err) \<Rightarrow> (s1\<lparr> sites := sts \<rparr>, err)))"

text \<open>
  The body of the \<^verbatim>\<open>try\<close> after decoding: the state it leaves, what it logged, and the
  exception it raised, if any. \<^verbatim>\<open>message.get\<close> raises unless the decoded value is a
  dict; a discriminator that is not a string equals none of the literals.
\<close>

definition dispatch_dcs ::
  "pyval \<Rightarrow> SAMSIMServer \<Rightarrow> SAMSIMServer \<times> effect list \<times> exn option" where
  "dispatch_dcs message s =
     (case message of
        PDict d \<Rightarrow>
          (let msg_type = dget d ''type'' (PStr '''') in
           if msg_type = PStr ''init'' then
             (s\<lparr> dcs_connected := True \<rparr>, [LogInfo ''DCS connected''], None)
           else if msg_type = PStr ''shutdown'' then
             (s\<lparr> dcs_connected := False \<rparr>, [LogInfo ''DCS disconnected''], None)
           else if msg_type = PStr ''status'' then
             (case apply_status d s of (s', err) \<Rightarrow> (s', [], err))
           else if msg_type = PStr ''response'' then (s, [], None)
           else (s, [], None))
      | _ \<Rightarrow> (s, [], Some AttributeError))"

text \<open>
  \<^verbatim>\<open>_process_dcs_data\<close>. Its argument is the outcome of
  \<^verbatim>\<open>json.loads(data.decode('utf-8'))\<close>: the decoded value, or the exception raised. Both
  handlers of the \<^verbatim>\<open>try\<close> only log, so no exception leaves the function.
\<close>

definition dcs_handler :: "exn \<Rightarrow> effect" where
  "dcs_handler e =
     (if e = JSONDecodeError then LogWarning ''Invalid JSON from DCS''
      else LogError ''Error processing DCS data'' e)"

definition process_dcs_data :: "exn + pyval \<Rightarrow> SAMSIMServer \<Rightarrow> SAMSIMServer \<times> effect list" where
  "process_dcs_data loaded s =
     (case loaded of
        Inl e \<Rightarrow> (s, [dcs_handler e])
      | Inr message \<Rightarrow>
          (case dispatch_dcs message s of
             (s', fx, None) \<Rightarrow> (s', fx)
           | (s', fx, Some e) \<Rightarrow> (s', fx @ [dcs_handler e])))"

text \<open>
  One round of the loop of \<^verbatim>\<open>_run_udp_receiver\<close>: \<open>None\<close> when the socket had no
  datagram (or an empty one), else the outcome of decoding it. The round ends by
  testing \<^verbatim>\<open>self.running\<close> again.
\<close>

definition udp_receiver_round ::
  "(exn + pyval) option \<Rightarrow> SAMSIMServer \<Rightarrow> SAMSIMServer \<times> effect list" where
  "udp_receiver_round received s =
     (case received of
        None \<Rightarrow> (s, [])
      | Some loaded \<Rightarrow> process_dcs_data loaded s)"

section \<open>Input and output of the handlers\<close>

text \<open>
  The calls whose outcome the server does not decide are parameters of the model:
  \<^item> \<open>json_dumps\<close> is \<^verbatim>\<open>json.dumps\<close> (every value stored in the state came from
    \<^verbatim>\<open>json.loads\<close>, so it serialises);
  \<^item> \<open>udp_sendto command\<close> is the outcome of encoding \<open>command\<close> and handing the
    datagram to \<^verbatim>\<open>udp_send_socket.sendto\<close>: \<open>Inr ()\<close>, or the exception raised;
  \<^item> \<open>client_send c payload\<close> is the outcome of \<^verbatim>\<open>await c.send(payload)\<close>;
  \<^item> \<open>exn_str\<close> is \<^verbatim>\<open>str(e)\<close>.
\<close>

record io =
  json_dumps :: "pyval \<Rightarrow> string"
  udp_sendto :: "pyval \<Rightarrow> exn + unit"
  client_send :: "client \<Rightarrow> string \<Rightarrow> exn + unit"
  exn_str :: "exn \<Rightarrow> string"

section \<open>Command Sink: \<^verbatim>\<open>send_to_dcs\<close>\<close>

text \<open>
  The function catches every exception of the send and logs it; it returns nothing in
  either case, so its result here is only what it did.
\<close>

definition send_to_dcs :: "io \<Rightarrow> pyval \<Rightarrow> effect list" where
  "send_to_dcs env command =
     (case udp_sendto env command of
        Inr u \<Rightarrow> [UdpSend command, LogDebug ''Sent to DCS'']
      | Inl e \<Rightarrow> [LogError ''Failed to send to DCS'' e])"

section \<open>Snapshots: the state dictionary built under the lock\<close>

definition site_dict :: "SAMSiteState \<Rightarrow> pyval" where
  "site_dict site =
     PDict [ (PStr ''siteId'', site_id site),
             (PStr ''systemState'', system_state site),
             (PStr ''radarMode'', radar_mode site),
             (PStr ''antennaAz'', antenna_az site),
             (PStr ''antennaEl'', antenna_el site),
             (PStr ''targets'', targets site),
             (PStr ''tracked'', tracked_target site),
             (PStr ''trackQuality'', track_quality site),
             (PStr ''missilesReady'', missiles_ready site),
             (PStr ''missilesInFlight'', missiles_in_flight site),
             (PStr ''engAuth'', engagement_auth site),
             (PStr ''autoEng'', auto_engage site) ]"

text \<open>
  The dictionary of \<^verbatim>\<open>_send_state_to_client\<close> (\<open>typ\<close> is \<^verbatim>\<open>state\<close>) and of
  \<^verbatim>\<open>_broadcast_loop\<close> (\<open>typ\<close> is \<^verbatim>\<open>update\<close>); the two are the same but for that field.
\<close>

definition state_dict :: "string \<Rightarrow> SAMSIMServer \<Rightarrow> pyval" where
  "state_dict typ s =
     PDict [ (PStr ''type'', PStr typ),
             (PStr ''dcsConnected'', PBool (dcs_connected s)),
             (PStr ''missionTime'', mission_time s),
             (PStr ''paused'', paused s),
             (PStr ''sites'', PDict (map (\<lambda>(sid, site). (sid, site_dict site)) (sites s))),
             (PStr ''worldObjects'', world_objects s) ]"

section \<open>Subscriber messages: \<^verbatim>\<open>_handle_ws_message\<close>\<close>

definition send_state_to_client :: "io \<Rightarrow> client \<Rightarrow> SAMSIMServer \<Rightarrow> effect list" where
  "send_state_to_client env websocket s =
     (let state = state_dict ''state'' s;
          message = json_dumps env state
      in [Snapshot state, Serialize state, WsSend websocket message] @
         (case client_send env websocket message of
            Inr u \<Rightarrow> []
          | Inl e \<Rightarrow> [LogError ''Failed to send state to client'' e]))"

text \<open>The command that the \<^verbatim>\<open>init_site\<close> branch builds.\<close>

definition init_site_command :: "pyval \<Rightarrow> pyval \<Rightarrow> pyval" where
  "init_site_command sid group_name =
     PDict [ (PStr ''cmd'', PStr ''init_site''),
             (PStr ''siteId'', sid),
             (PStr ''params'', PDict [(PStr ''groupName'', group_name)]) ]"

definition ack_message :: "pyval \<Rightarrow> pyval" where
  "ack_message cmd = PDict [(PStr ''type'', PStr ''ack''), (PStr ''command'', cmd)]"

text \<open>
  The body of the \<^verbatim>\<open>try\<close> after decoding. In the \<^verbatim>\<open>command\<close> branch the command is
  forwarded before \<^verbatim>\<open>command.get('cmd')\<close> is evaluated, which raises when the command is
  not a dict. In the \<^verbatim>\<open>init_site\<close> branch the command is forwarded before the test
  \<^verbatim>\<open>site_id not in self.sites\<close>, which raises for an unhashable identifier.
\<close>

definition dispatch_ws ::
  "io \<Rightarrow> client \<Rightarrow> pyval \<Rightarrow> SAMSIMServer \<Rightarrow> SAMSIMServer \<times> effect list \<times> exn option" where
  "dispatch_ws env websocket data s =
     (case data of
        PDict d \<Rightarrow>
          (let cmd_type = dget d ''type'' (PStr '''') in
           if cmd_type = PStr ''command'' then
             (let command = dget d ''command'' (PDict []);
                  fx = send_to_dcs env command
              in case command of
                   PDict c \<Rightarrow>
                     (let ack = json_dumps env (ack_message (dget c ''cmd'' PNone)) in
                      case client_send env websocket ack of
                        Inr u \<Rightarrow> (s, fx @ [WsSend websocket ack], None)
                      | Inl e \<Rightarrow> (s, fx @ [WsSend websocket ack], Some e))
                 | _ \<Rightarrow> (s, fx, Some AttributeError))
           else if cmd_type = PStr ''init_site'' then
             (let sid = dget d ''siteId'' PNone;
                  group_name = dget d ''groupName'' PNone;
                  fx = send_to_dcs env (init_site_command sid group_name)
              in case py_in sid (sites s) of
                   Inl e \<Rightarrow> (s, fx, Some e)
                 | Inr present \<Rightarrow>
                     ((if \<not> present then s\<lparr> sites := dict_set (sites s) sid (new_site sid) \<rparr>
                       else s), fx, None))
           else if cmd_type = PStr ''get_state'' then
             (s, send_state_to_client env websocket s, None)
           else (s, [], None))
      | _ \<Rightarrow> (s, [], Some AttributeError))"

definition ws_handler :: "exn \<Rightarrow> effect" where
  "ws_handler e =
     (if e = JSONDecodeError then LogWarning ''Invalid JSON from WebSocket''
      else LogError ''Error handling WebSocket message'' e)"

text \<open>
  \<^verbatim>\<open>_handle_ws_message\<close>; \<open>loaded\<close> is the outcome of \<^verbatim>\<open>json.loads(message)\<close>.
\<close>

definition handle_ws_message ::
  "io \<Rightarrow> client \<Rightarrow> exn + pyval \<Rightarrow> SAMSIMServer \<Rightarrow> SAMSIMServer \<times> effect list" where
  "handle_ws_message env websocket loaded s =
     (case loaded of
        Inl e \<Rightarrow> (s, [ws_handler e])
      | Inr data \<Rightarrow>
          (case dispatch_ws env websocket data s of
             (s', fx, None) \<Rightarrow> (s', fx)
           | (s', fx, Some e) \<Rightarrow> (s', fx @ [ws_handler e])))"

text \<open>The registry: \<^verbatim>\<open>ws_clients.add\<close> on connection, \<^verbatim>\<open>ws_clients.discard\<close> at its end.\<close>

definition ws_register :: "client \<Rightarrow> SAMSIMServer \<Rightarrow> SAMSIMServer" where
  "ws_register c s =
     s\<lparr> ws_clients := (if c \<in> set (ws_clients s) then ws_clients s else ws_clients s @ [c]) \<rparr>"

definition ws_unregister :: "client \<Rightarrow> SAMSIMServer \<Rightarrow> SAMSIMServer" where
  "ws_unregister c s = s\<lparr> ws_clients := removeAll c (ws_clients s) \<rparr>"

section \<open>Query endpoints: \<^verbatim>\<open>_api_status\<close> and \<^verbatim>\<open>_api_command\<close>\<close>

definition api_status :: "SAMSIMServer \<Rightarrow> pyval" where
  "api_status s =
     PDict [ (PStr ''dcsConnected'', PBool (dcs_connected s)),
             (PStr ''missionTime'', mission_time s),
             (PStr ''paused'', paused s),
             (PStr ''sites'', PList (dict_keys (sites s))) ]"

text \<open>
  \<open>body\<close> is the outcome of \<^verbatim>\<open>await request.json()\<close>. The result is the JSON response and
  what the Command Sink did.
\<close>

definition api_command :: "io \<Rightarrow> exn + pyval \<Rightarrow> pyval \<times> effect list" where
  "api_command env body =
     (case body of
        Inr data \<Rightarrow> (PDict [(PStr ''success'', PBool True)], send_to_dcs env data)
      | Inl e \<Rightarrow>
          (PDict [(PStr ''success'', PBool False), (PStr ''error'', PStr (exn_str env e))], []))"

section \<open>The other tasks\<close>

text \<open>
  What the tasks other than the broadcast loop do to the state, each occurrence with the
  outcomes of its own I/O: a datagram processed, a subscriber connected or gone, a
  subscriber message handled, a query answered. Each of these changes the state without
  suspending in between (a handler awaits only after its last change), so an occurrence
  is one step.
\<close>

datatype task_event =
    DcsDatagram "exn + pyval"
  | WsConnect client
  | WsDisconnect client
  | WsMessage client "exn + pyval"
  | ApiStatus
  | ApiCommand "exn + pyval"

fun handle :: "io \<Rightarrow> task_event \<Rightarrow> SAMSIMServer \<Rightarrow> SAMSIMServer" where
  "handle env (DcsDatagram loaded) s = fst (process_dcs_data loaded s)"
| "handle env (WsConnect c) s = ws_register c s"
| "handle env (WsDisconnect c) s = ws_unregister c s"
| "handle env (WsMessage c loaded) s = fst (handle_ws_message env c loaded s)"
| "handle env ApiStatus s = s"
| "handle env (ApiCommand body) s = s"

text \<open>
  The occurrences that run while another task is suspended at an \<^verbatim>\<open>await\<close>: the state
  they leave, and whether one of them changed the registry.
\<close>

fun run_tasks :: "(io \<times> task_event) list \<Rightarrow> SAMSIMServer \<Rightarrow> SAMSIMServer \<times> bool" where
  "run_tasks [] s = (s, False)"
| "run_tasks ((env, ev) # rest) s =
     (case run_tasks rest (handle env ev s) of
        (s', touched) \<Rightarrow> (s', touched \<or> ws_clients (handle env ev s) \<noteq> ws_clients s))"

section \<open>Broadcast Scheduler: one round of \<^verbatim>\<open>_broadcast_loop\<close>\<close>

text \<open>
  How a tick ends: it completes, an exception leaves it, or its course is not determined
  by the model.
\<close>

datatype tick_end = Completed | Raised exn | Undetermined

text \<open>
  The head of \<^verbatim>\<open>for client in self.ws_clients\<close> asks the iterator of the live set for the
  next subscriber, also after the last one. The iterator raises \<^verbatim>\<open>RuntimeError\<close> (set
  changed size during iteration) when the set has not the size \<open>n\<close> it had when the
  iteration began. When the set was changed and has that size again, the iterator goes
  on over the changed hash table, and which subscribers it yields depends on the layout
  of that table: this case is left undetermined. \<open>None\<close>: the iteration goes on.
\<close>

definition set_iter_next :: "nat \<Rightarrow> bool \<Rightarrow> SAMSIMServer \<Rightarrow> tick_end option" where
  "set_iter_next n touched s =
     (if length (ws_clients s) \<noteq> n then Some (Raised RuntimeError)
      else if touched then Some Undetermined
      else None)"

text \<open>
  For each subscriber, what the other tasks do while the tick is suspended in
  \<^verbatim>\<open>await client.send(message)\<close> for it.
\<close>

type_synonym schedule = "client \<Rightarrow> (io \<times> task_event) list"

text \<open>
  The loop over the registry. \<open>pending\<close> are the subscribers that the iterator has still
  to yield, \<open>touched\<close> tells whether the registry was changed during the last send. The
  state of the loop is the server, the set \<^verbatim>\<open>dead_clients\<close> and what the tick has done so
  far. The \<^verbatim>\<open>try\<close> encloses the send alone: a failed send only adds to \<^verbatim>\<open>dead_clients\<close>,
  whereas the exception of the iterator ends the loop.
\<close>

fun broadcast_loop ::
  "io \<Rightarrow> schedule \<Rightarrow> string \<Rightarrow> nat \<Rightarrow> client list \<Rightarrow> bool \<Rightarrow>
   SAMSIMServer \<times> client list \<times> effect list \<Rightarrow>
   (SAMSIMServer \<times> client list \<times> effect list) \<times> tick_end" where
  "broadcast_loop env during message n [] touched (s, dead_clients, fx) =
     (case set_iter_next n touched s of
        Some e \<Rightarrow> ((s, dead_clients, fx), e)
      | None \<Rightarrow> ((s, dead_clients, fx), Completed))"
| "broadcast_loop env during message n (c # pending) touched (s, dead_clients, fx) =
     (case set_iter_next n touched s of
        Some e \<Rightarrow> ((s, dead_clients, fx), e)
      | None \<Rightarrow>
          (case run_tasks (during c) s of
             (s', touched') \<Rightarrow>
               broadcast_loop env during message n pending touched'
                 (s',
                  (case client_send env c message of
                     Inr u \<Rightarrow> dead_clients
                   | Inl e \<Rightarrow> List.insert c dead_clients),
                  fx @ [WsSend c message])))"

text \<open>
  One tick: the state it leaves, what it did, and how it ended. Nothing suspends between
  the test of the registry and the first step of the loop. The dead subscribers are
  removed only when the loop completes; an exception of the iterator leaves
  \<^verbatim>\<open>_broadcast_loop\<close> itself, which has no handler for it.
\<close>

definition broadcast_tick ::
  "io \<Rightarrow> schedule \<Rightarrow> SAMSIMServer \<Rightarrow> SAMSIMServer \<times> effect list \<times> tick_end" where
  "broadcast_tick env during s =
     (if ws_clients s \<noteq> [] then
        (let state = state_dict ''update'' s;
             message = json_dumps env state
         in case broadcast_loop env during message (length (ws_clients s)) (ws_clients s) False
                   (s, [], [Snapshot state, Serialize state]) of
              ((s1, dead_clients, fx), Completed) \<Rightarrow>
                (s1\<lparr> ws_clients := filter (\<lambda>c. c \<notin> set dead_clients) (ws_clients s1) \<rparr>,
                 fx, Completed)
            | ((s1, dead_clients, fx), e) \<Rightarrow> (s1, fx, e))
      else (s, [], Completed))"

section \<open>Sessions\<close>

text \<open>
  Everything that can happen to the state during a session: an occurrence in another
  task, or a tick of the broadcast with what the other tasks do during its sends.
\<close>

datatype event =
    Task task_event
  | BroadcastTick schedule

fun step :: "io \<Rightarrow> event \<Rightarrow> SAMSIMServer \<Rightarrow> SAMSIMServer" where
  "step env (Task ev) s = handle env ev s"
| "step env (BroadcastTick during) s = fst (broadcast_tick env during s)"

fun run :: "(io \<times> event) list \<Rightarrow> SAMSIMServer \<Rightarrow> SAMSIMServer" where
  "run [] s = s"
| "run ((env, ev) # rest) s = run rest (step env ev s)"

section \<open>Shapes of inbound messages\<close>

text \<open>
  The discriminator that \<^verbatim>\<open>_process_dcs_data\<close> reads: \<open>None\<close> when the decoded value is
  not an object.
\<close>

definition discriminator :: "pyval \<Rightarrow> pyval option" where
  "discriminator m = (case m of PDict d \<Rightarrow> Some (dget d ''type'' (PStr '''')) | _ \<Rightarrow> None)"

text \<open>
  A datagram that is not valid JSON, or that decodes to a message whose discriminator
  is none of \<^verbatim>\<open>init\<close>, \<^verbatim>\<open>shutdown\<close>, \<^verbatim>\<open>status\<close>.
\<close>

definition unrecognised :: "exn + pyval \<Rightarrow> bool" where
  "unrecognised loaded =
     (case loaded of
        Inl e \<Rightarrow> True
      | Inr m \<Rightarrow>
          discriminator m \<noteq> Some (PStr ''init'') \<and>
          discriminator m \<noteq> Some (PStr ''shutdown'') \<and>
          discriminator m \<noteq> Some (PStr ''status''))"

definition is_dict :: "pyval \<Rightarrow> bool" where
  "is_dict v = (case v of PDict d \<Rightarrow> True | _ \<Rightarrow> False)"

text \<open>
  The entities that a message names: the items of its \<^verbatim>\<open>sites\<close> object.
\<close>

definition named_entities :: "pyval \<Rightarrow> (pyval \<times> pyval) list" where
  "named_entities m =
     (case m of
        PDict d \<Rightarrow> (case dget d ''sites'' (PDict []) of PDict items \<Rightarrow> items | _ \<Rightarrow> [])
      | _ \<Rightarrow> [])"

text \<open>
  A \<^verbatim>\<open>status\<close> update of the shape of the inbound interface: an object with discriminator
  \<^verbatim>\<open>status\<close> whose \<^verbatim>\<open>sites\<close>, when present, is an object mapping identifiers to objects.
  The keys of an object that \<^verbatim>\<open>json.loads\<close> built are hashable and pairwise different.
\<close>

definition status_update :: "pyval \<Rightarrow> bool" where
  "status_update m =
     (case m of
        PDict d \<Rightarrow>
          dget d ''type'' (PStr '''') = PStr ''status'' \<and>
          is_dict (dget d ''sites'' (PDict [])) \<and>
          list_all (\<lambda>(sid, site_data). hashable sid \<and> is_dict site_data) (named_entities m) \<and>
          distinct (map (\<lambda>(sid, site_data). key_class sid) (named_entities m))
      | _ \<Rightarrow> False)"

text \<open>The entity projection that a snapshot holds for an identifier.\<close>

definition snapshot_entity :: "pyval \<Rightarrow> pyval \<Rightarrow> pyval option" where
  "snapshot_entity snap sid =
     (case snap of
        PDict d \<Rightarrow>
          (case dict_get d (PStr ''sites'') of
             Some (PDict entities) \<Rightarrow> dict_get entities sid
           | _ \<Rightarrow> None)
      | _ \<Rightarrow> None)"

text \<open>
  The eleven entity fields as a payload alone determines them: the value it gives, or
  the default of the \<^verbatim>\<open>status\<close> branch.
\<close>

definition fields_of_payload :: "pyval pydict \<Rightarrow> (pyval \<times> pyval) list" where
  "fields_of_payload d =
     [ (PStr ''systemState'', dget d ''systemState'' (PInt 0)),
       (PStr ''radarMode'', dget d ''radarMode'' (PInt 0)),
       (PStr ''antennaAz'', dget d ''antennaAz'' (PInt 0)),
       (PStr ''antennaEl'', dget d ''antennaEl'' (PInt 5)),
       (PStr ''targets'', dget d ''targets'' (PList [])),
       (PStr ''tracked'', dget d ''tracked'' PNone),
       (PStr ''trackQuality'', dget d ''trackQuality'' (PInt 0)),
       (PStr ''missilesReady'', dget d ''missilesReady'' (PInt 6)),
       (PStr ''missilesInFlight'', dget d ''missilesInFlight'' (PInt 0)),
       (PStr ''engAuth'', dget d ''engAuth'' (PBool False)),
       (PStr ''autoEng'', dget d ''autoEng'' (PBool False)) ]"

text \<open>Whether a send to a subscriber succeeds.\<close>

definition send_ok :: "io \<Rightarrow> string \<Rightarrow> client \<Rightarrow> bool" where
  "send_ok env message c = (case client_send env c message of Inr u \<Rightarrow> True | Inl e \<Rightarrow> False)"

text \<open>
  The record that the \<^verbatim>\<open>status\<close> branch assigns to for an identifier: the one stored, or
  the fresh one that the branch creates first.
\<close>

definition site_before :: "SAMSiteState pydict \<Rightarrow> pyval \<Rightarrow> SAMSiteState" where
  "site_before sts sid = (case dict_get sts sid of Some old \<Rightarrow> old | None \<Rightarrow> new_site sid)"

text \<open>The payload that a tick of the broadcast serialises and sends.\<close>

definition update_payload :: "io \<Rightarrow> SAMSIMServer \<Rightarrow> string" where
  "update_payload env s = json_dumps env (state_dict ''update'' s)"

section \<open>Example inputs\<close>

definition status_S1 :: pyval where
  "status_S1 =
     PDict [ (PStr ''type'', PStr ''status''),
             (PStr ''time'', PInt 42),
             (PStr ''paused'', PBool False),
             (PStr ''sites'',
                PDict [(PStr ''S1'',
                   PDict [(PStr ''systemState'', PInt 2), (PStr ''radarMode'', PInt 1)])]) ]"

definition failing_io :: io where
  "failing_io = \<lparr> json_dumps = (\<lambda>v. ''''), udp_sendto = (\<lambda>c. Inl OSError),
                  client_send = (\<lambda>c m. Inl ConnectionClosed), exn_str = (\<lambda>e. ''error'') \<rparr>"

definition ok_io :: io where
  "ok_io = \<lparr> json_dumps = (\<lambda>v. ''payload''), udp_sendto = (\<lambda>c. Inr ()),
             client_send = (\<lambda>c m. Inr ()), exn_str = (\<lambda>e. ''error'') \<rparr>"

definition init_site_S1 :: "pyval pydict" where
  "init_site_S1 =
     [(PStr ''type'', PStr ''init_site''), (PStr ''siteId'', PStr ''S1''),
      (PStr ''groupName'', PStr ''SA2-1'')]"

definition status_S1_full :: pyval where
  "status_S1_full =
     PDict [ (PStr ''type'', PStr ''status''),
             (PStr ''time'', PInt 41),
             (PStr ''sites'',
                PDict [(PStr ''S1'',
                   PDict [ (PStr ''systemState'', PInt 3),
                           (PStr ''radarMode'', PInt 2),
                           (PStr ''antennaAz'', PFloat (FVal 90)),
                           (PStr ''antennaEl'', PFloat (FVal 30)),
                           (PStr ''targets'', PList [PStr ''T1'']),
                           (PStr ''tracked'', PDict [(PStr ''id'', PStr ''T1'')]),
                           (PStr ''trackQuality'', PInt 80),
                           (PStr ''missilesReady'', PInt 2),
                           (PStr ''missilesInFlight'', PInt 1),
                           (PStr ''engAuth'', PBool True),
                           (PStr ''autoEng'', PBool True) ])]) ]"

definition status_no_sites :: pyval where
  "status_no_sites = PDict [(PStr ''type'', PStr ''status''), (PStr ''time'', PInt 43)]"

definition payload_S1 :: "pyval pydict" where
  "payload_S1 = [(PStr ''systemState'', PInt 2), (PStr ''radarMode'', PInt 1)]"

definition three_clients :: SAMSIMServer where
  "three_clients = init_server\<lparr> ws_clients := [1, 2, 3] \<rparr>"

text \<open>Sends to subscriber 1 fail, its connection being closed.\<close>

definition first_closed :: io where
  "first_closed = \<lparr> json_dumps = (\<lambda>v. ''payload''), udp_sendto = (\<lambda>c. Inr ()),
             client_send = (\<lambda>c m. if c = 1 then Inl ConnectionClosed else Inr ()),
             exn_str = (\<lambda>e. ''error'') \<rparr>"

text \<open>No other task runs during the sends of a tick.\<close>

definition quiet :: schedule where
  "quiet = (\<lambda>c. [])"

text \<open>A new subscriber 4 connects while the tick awaits the send to subscriber 1.\<close>

definition connect_during_first :: schedule where
  "connect_during_first = (\<lambda>c. if c = 1 then [(ok_io, WsConnect 4)] else [])"

text \<open>
  The handler of subscriber 1 ends, and discards it from the registry, while the tick
  awaits the send to it.
\<close>

definition disconnect_during_first :: schedule where
  "disconnect_during_first = (\<lambda>c. if c = 1 then [(ok_io, WsDisconnect 1)] else [])"

definition session_after_S1 :: "(io \<times> event) list" where
  "session_after_S1 =
     [ (ok_io, Task (DcsDatagram (Inr status_no_sites))),
       (ok_io, Task (DcsDatagram (Inl JSONDecodeError))),
       (ok_io, Task (DcsDatagram (Inr (PDict [(PStr ''type'', PStr ''shutdown'')])))),
       (ok_io, Task (WsMessage 0 (Inr (PDict [(PStr ''type'', PStr ''get_state'')])))),
       (ok_io, BroadcastTick quiet),
       (ok_io, Task (WsConnect 1)),
       (ok_io, BroadcastTick connect_during_first) ]"

section \<open>Dictionary lemmas\<close>

lemma key_eq_refl [simp]: "key_eq k k"
  by (simp add: key_eq_def)

lemma key_eq_PStr [simp]: "key_eq (PStr a) (PStr b) = (a = b)"
  by (simp add: key_eq_def)

lemma dict_get_set:
  "dict_get (dict_set d k v) k' = (if key_eq k k' then Some v else dict_get d k')"
  by (induction d) (auto simp: key_eq_def)

lemma dict_set_append: "dict_get d k = None \<Longrightarrow> dict_set d k v = d @ [(k, v)]"
  by (induction d) (auto split: if_splits)

lemma dict_keys_set:
  "dict_keys (dict_set d k v) = (if dict_get d k = None then dict_keys d @ [k] else dict_keys d)"
  by (induction d) (auto simp: dict_keys_def split: if_splits)

lemma dict_get_map:
  "dict_get (map (\<lambda>(k, x). (k, f x)) d) k = map_option f (dict_get d k)"
  by (induction d) auto

lemma dict_get_None_iff:
  "dict_get d k = None \<longleftrightarrow> key_class k \<notin> key_class ` set (dict_keys d)"
  by (induction d) (auto simp: dict_keys_def key_eq_def split: if_splits)

lemma dict_set_set [simp]: "dict_set (dict_set d k v) k v' = dict_set d k v'"
  by (induction d) auto

section \<open>The loop over the entities of a status update\<close>

lemma update_sites_keys:
  "\<exists>new. dict_keys (fst (update_sites items sts)) = dict_keys sts @ new"
proof (induction items arbitrary: sts)
  case Nil
  show ?case by simp
next
  case (Cons item rest)
  obtain sid site_data where item: "item = (sid, site_data)" by (cases item)
  show ?case
  proof (cases "hashable sid")
    case False
    then show ?thesis by (simp add: item py_in_def)
  next
    case True
    define sts1 where "sts1 = (if dict_get sts sid = None then dict_set sts sid (new_site sid) else sts)"
    have k1: "\<exists>new. dict_keys sts1 = dict_keys sts @ new"
      by (simp add: sts1_def dict_keys_set)
    have present: "dict_get sts1 sid \<noteq> None"
      by (simp add: sts1_def dict_get_set)
    then obtain site where site: "dict_get sts1 sid = Some site" by blast
    show ?thesis
    proof (cases "is_dict site_data")
      case False
      then have "fst (update_sites (item # rest) sts) = sts1"
        using True site by (cases site_data) (auto simp: item py_in_def sts1_def is_dict_def Let_def)
      then show ?thesis using k1 by simp
    next
      case True
      then obtain d where d: "site_data = PDict d" by (cases site_data) (auto simp: is_dict_def)
      let ?sts2 = "dict_set sts1 sid (update_site d site)"
      have eq: "update_sites (item # rest) sts = update_sites rest ?sts2"
        using \<open>hashable sid\<close> site by (auto simp: item d py_in_def sts1_def Let_def)
      have k2: "dict_keys ?sts2 = dict_keys sts1"
        using present by (simp add: dict_keys_set)
      from Cons.IH [of ?sts2] obtain new where "dict_keys (fst (update_sites rest ?sts2)) = dict_keys ?sts2 @ new"
        by blast
      with k1 k2 eq show ?thesis by auto
    qed
  qed
qed

lemma update_sites_dict:
  assumes "hashable sid"
  shows "update_sites ((sid, PDict d) # rest) sts =
         update_sites rest (dict_set sts sid (update_site d (site_before sts sid)))"
  using assms by (cases "dict_get sts sid") (auto simp: py_in_def site_before_def dict_get_set)

lemma update_sites_not_dict:
  assumes "hashable sid" "\<not> is_dict site_data"
  shows "update_sites ((sid, site_data) # rest) sts =
         ((if dict_get sts sid = None then dict_set sts sid (new_site sid) else sts),
          Some AttributeError)"
  using assms
  by (cases site_data; cases "dict_get sts sid") (auto simp: py_in_def is_dict_def dict_get_set)

lemma update_sites_unhashable:
  assumes "\<not> hashable sid"
  shows "update_sites ((sid, site_data) # rest) sts = (sts, Some TypeError)"
  using assms by (simp add: py_in_def)

lemma update_sites_other:
  assumes "key_class k \<notin> (\<lambda>(sid, site_data). key_class sid) ` set items"
  shows "dict_get (fst (update_sites items sts)) k = dict_get sts k"
  using assms
proof (induction items arbitrary: sts)
  case Nil
  show ?case by simp
next
  case (Cons item rest)
  obtain sid site_data where item: "item = (sid, site_data)" by (cases item)
  from Cons.prems have ne: "\<not> key_eq sid k" and rest: "key_class k \<notin> (\<lambda>(sid, site_data). key_class sid) ` set rest"
    by (auto simp: item key_eq_def)
  show ?case
  proof (cases "hashable sid")
    case False
    then show ?thesis by (simp add: item update_sites_unhashable del: update_sites.simps)
  next
    case True
    show ?thesis
    proof (cases "is_dict site_data")
      case False
      with True ne show ?thesis by (simp add: item update_sites_not_dict dict_get_set del: update_sites.simps)
    next
      case True
      then obtain d where d: "site_data = PDict d" by (cases site_data) (auto simp: is_dict_def)
      show ?thesis
        using \<open>hashable sid\<close> ne Cons.IH [OF rest]
        by (simp add: item d update_sites_dict dict_get_set del: update_sites.simps)
    qed
  qed
qed

lemma update_sites_wf:
  assumes "list_all (\<lambda>(sid, site_data). hashable sid \<and> is_dict site_data) items"
    and "distinct (map (\<lambda>(sid, site_data). key_class sid) items)"
    and "(sid, PDict d) \<in> set items"
  shows "dict_get (fst (update_sites items sts)) sid = Some (update_site d (site_before sts sid))"
  using assms
proof (induction items arbitrary: sts)
  case Nil
  then show ?case by simp
next
  case (Cons item rest)
  obtain sid0 site_data where item: "item = (sid0, site_data)" by (cases item)
  from Cons.prems(1) obtain d0 where d0: "site_data = PDict d0" and h0: "hashable sid0"
    by (cases site_data) (auto simp: item is_dict_def)
  let ?sts' = "dict_set sts sid0 (update_site d0 (site_before sts sid0))"
  have step: "update_sites (item # rest) sts = update_sites rest ?sts'"
    using h0 by (simp add: item d0 update_sites_dict del: update_sites.simps)
  from Cons.prems(2) have fresh: "key_class sid0 \<notin> (\<lambda>(sid, site_data). key_class sid) ` set rest"
    and dist: "distinct (map (\<lambda>(sid, site_data). key_class sid) rest)"
    by (auto simp: item)
  from Cons.prems(1) have wf: "list_all (\<lambda>(sid, site_data). hashable sid \<and> is_dict site_data) rest"
    by simp
  show ?case
  proof (cases "(sid, PDict d) \<in> set rest")
    case True
    then have "key_class sid \<noteq> key_class sid0" using fresh by force
    then have same: "site_before ?sts' sid = site_before sts sid"
      by (simp add: site_before_def dict_get_set key_eq_def)
    from Cons.IH [OF wf dist True, of ?sts'] show ?thesis
      by (simp add: step same)
  next
    case False
    with Cons.prems(3) have hd: "sid = sid0" "d = d0" by (auto simp: item d0)
    have "dict_get (fst (update_sites rest ?sts')) sid0 = dict_get ?sts' sid0"
      by (rule update_sites_other [OF fresh])
    then show ?thesis by (simp add: step hd dict_get_set)
  qed
qed

section \<open>Handlers\<close>

lemma process_init:
  "dget d ''type'' (PStr '''') = PStr ''init'' \<Longrightarrow>
   process_dcs_data (Inr (PDict d)) s = (s\<lparr> dcs_connected := True \<rparr>, [LogInfo ''DCS connected''])"
  by (simp add: process_dcs_data_def dispatch_dcs_def)

lemma process_shutdown:
  "dget d ''type'' (PStr '''') = PStr ''shutdown'' \<Longrightarrow>
   process_dcs_data (Inr (PDict d)) s = (s\<lparr> dcs_connected := False \<rparr>, [LogInfo ''DCS disconnected''])"
  by (simp add: process_dcs_data_def dispatch_dcs_def)

lemma handle_init_site:
  assumes "dget d ''type'' (PStr '''') = PStr ''init_site''" and "hashable (dget d ''siteId'' PNone)"
  shows "handle_ws_message env c (Inr (PDict d)) s =
           ((if dict_get (sites s) (dget d ''siteId'' PNone) = None
             then s\<lparr> sites := sites s @ [(dget d ''siteId'' PNone, new_site (dget d ''siteId'' PNone))] \<rparr>
             else s),
            send_to_dcs env (init_site_command (dget d ''siteId'' PNone) (dget d ''groupName'' PNone)))"
  using assms
  by (simp add: handle_ws_message_def dispatch_ws_def py_in_def Let_def dict_set_append)

section \<open>Ticks of the broadcast\<close>

text \<open>
  Whatever the other tasks do, a tick that starts with a non-empty registry takes one
  snapshot, serialises it once, and then sends that one payload to the subscribers of
  the registry in turn, as far as it gets.
\<close>

lemma broadcast_loop_effects:
  "\<exists>k. snd (snd (fst (broadcast_loop env during msg n pending touched (s, dead, fx)))) =
         fx @ map (\<lambda>c. WsSend c msg) (take k pending)"
proof (induction pending arbitrary: touched s dead fx)
  case Nil
  show ?case by (cases "set_iter_next n touched s") simp_all
next
  case (Cons c pending)
  show ?case
  proof (cases "set_iter_next n touched s")
    case (Some e)
    then have "snd (snd (fst (broadcast_loop env during msg n (c # pending) touched (s, dead, fx)))) =
        fx @ map (\<lambda>c. WsSend c msg) (take 0 (c # pending))"
      by simp
    then show ?thesis by blast
  next
    case None
    obtain s' t' where r: "run_tasks (during c) s = (s', t')" by (cases "run_tasks (during c) s")
    let ?dead = "case client_send env c msg of Inr u \<Rightarrow> dead | Inl e \<Rightarrow> List.insert c dead"
    from Cons.IH [of t' s' ?dead "fx @ [WsSend c msg]"] obtain k where
      "snd (snd (fst (broadcast_loop env during msg n pending t' (s', ?dead, fx @ [WsSend c msg])))) =
         (fx @ [WsSend c msg]) @ map (\<lambda>c. WsSend c msg) (take k pending)"
      by blast
    then have "snd (snd (fst (broadcast_loop env during msg n (c # pending) touched (s, dead, fx)))) =
        fx @ map (\<lambda>c. WsSend c msg) (take (Suc k) (c # pending))"
      by (simp add: None r)
    then show ?thesis by blast
  qed
qed

lemma broadcast_tick_effects:
  assumes "ws_clients s \<noteq> []"
  shows "\<exists>k. fst (snd (broadcast_tick env during s)) =
           Snapshot (state_dict ''update'' s) # Serialize (state_dict ''update'' s) #
           map (\<lambda>c. WsSend c (update_payload env s)) (take k (ws_clients s))"
proof -
  let ?st = "state_dict ''update'' s"
  let ?msg = "json_dumps env ?st"
  obtain s1 dead fx e where l:
    "broadcast_loop env during ?msg (length (ws_clients s)) (ws_clients s) False
       (s, [], [Snapshot ?st, Serialize ?st]) = ((s1, dead, fx), e)"
    by (metis prod.exhaust)
  from broadcast_loop_effects [where env = env and during = during and msg = ?msg
      and n = "length (ws_clients s)" and pending = "ws_clients s" and touched = False and s = s
      and dead = "[]" and fx = "[Snapshot ?st, Serialize ?st]"] l
  obtain k where "fx = [Snapshot ?st, Serialize ?st] @ map (\<lambda>c. WsSend c ?msg) (take k (ws_clients s))"
    by auto
  with assms l show ?thesis
    by (cases e) (auto simp: broadcast_tick_def update_payload_def Let_def)
qed

lemma broadcast_tick_empty:
  "ws_clients s = [] \<Longrightarrow> broadcast_tick env during s = (s, [], Completed)"
  by (simp add: broadcast_tick_def)

text \<open>
  When no other task runs during the sends, the tick completes: every subscriber is sent
  the payload, and those whose send failed are removed afterwards.
\<close>

lemma broadcast_loop_quiet:
  assumes "\<forall>c \<in> set pending. during c = []" and "length (ws_clients s) = n"
  shows "\<exists>dead'. broadcast_loop env during msg n pending False (s, dead, fx) =
             ((s, dead', fx @ map (\<lambda>c. WsSend c msg) pending), Completed) \<and>
           set dead' = set dead \<union> {c \<in> set pending. \<not> send_ok env msg c}"
  using assms(1)
proof (induction pending arbitrary: dead fx)
  case Nil
  show ?case using assms(2) by (simp add: set_iter_next_def)
next
  case (Cons c pending)
  from Cons.prems have q: "during c = []" and rest: "\<forall>c \<in> set pending. during c = []" by simp_all
  let ?dead = "case client_send env c msg of Inr u \<Rightarrow> dead | Inl e \<Rightarrow> List.insert c dead"
  have step: "broadcast_loop env during msg n (c # pending) False (s, dead, fx) =
      broadcast_loop env during msg n pending False (s, ?dead, fx @ [WsSend c msg])"
    using assms(2) by (simp add: set_iter_next_def q)
  from Cons.IH [OF rest, of ?dead "fx @ [WsSend c msg]"] show ?case
    by (cases "client_send env c msg") (auto simp: step send_ok_def simp del: broadcast_loop.simps)
qed

lemma broadcast_tick_quiet:
  assumes "\<forall>c \<in> set (ws_clients s). during c = []" and "ws_clients s \<noteq> []"
  shows "broadcast_tick env during s =
      (s\<lparr> ws_clients := filter (send_ok env (update_payload env s)) (ws_clients s) \<rparr>,
       Snapshot (state_dict ''update'' s) # Serialize (state_dict ''update'' s) #
         map (\<lambda>c. WsSend c (update_payload env s)) (ws_clients s),
       Completed)"
proof -
  let ?st = "state_dict ''update'' s"
  let ?msg = "json_dumps env ?st"
  from broadcast_loop_quiet [OF assms(1) refl, where env = env and msg = ?msg and dead = "[]"
      and fx = "[Snapshot ?st, Serialize ?st]"]
  obtain dead' where f: "broadcast_loop env during ?msg (length (ws_clients s)) (ws_clients s) False
        (s, [], [Snapshot ?st, Serialize ?st]) =
      ((s, dead', [Snapshot ?st, Serialize ?st] @ map (\<lambda>c. WsSend c ?msg) (ws_clients s)), Completed)"
    and d: "set dead' = {c \<in> set (ws_clients s). \<not> send_ok env ?msg c}"
    by auto
  have "filter (\<lambda>c. c \<notin> set dead') (ws_clients s) = filter (send_ok env ?msg) (ws_clients s)"
    by (rule filter_cong) (auto simp: d)
  with assms(2) f show ?thesis by (simp add: broadcast_tick_def update_payload_def Let_def)
qed

section \<open>Keys of the entity mapping\<close>

lemma apply_status_keys:
  "\<exists>new. dict_keys (sites (fst (apply_status d s))) = dict_keys (sites s) @ new"
proof (cases "py_items (dget d ''sites'' (PDict []))")
  case (Inl e)
  then show ?thesis by (simp add: apply_status_def)
next
  case (Inr items)
  obtain sts err where u: "update_sites items (sites s) = (sts, err)"
    by (cases "update_sites items (sites s)")
  from update_sites_keys [of items "sites s"] u
  have "\<exists>new. dict_keys sts = dict_keys (sites s) @ new" by simp
  with Inr u show ?thesis by (simp add: apply_status_def)
qed

lemma dispatch_dcs_keys:
  "\<exists>new. dict_keys (sites (fst (dispatch_dcs m s))) = dict_keys (sites s) @ new"
proof (cases "is_dict m")
  case False
  then show ?thesis by (cases m) (simp_all add: dispatch_dcs_def is_dict_def)
next
  case True
  then obtain d where d: "m = PDict d" by (cases m) (auto simp: is_dict_def)
  obtain s' err where a: "apply_status d s = (s', err)" by (cases "apply_status d s")
  from apply_status_keys [of d s] a
  have "\<exists>new. dict_keys (sites s') = dict_keys (sites s) @ new" by simp
  with a show ?thesis by (simp add: d dispatch_dcs_def Let_def)
qed

lemma process_dcs_data_keys:
  "\<exists>new. dict_keys (sites (fst (process_dcs_data loaded s))) = dict_keys (sites s) @ new"
proof (cases loaded)
  case (Inl e)
  then show ?thesis by (simp add: process_dcs_data_def)
next
  case (Inr m)
  obtain s' fx err where a: "dispatch_dcs m s = (s', fx, err)" by (cases "dispatch_dcs m s")
  from dispatch_dcs_keys [of m s] a
  have "\<exists>new. dict_keys (sites s') = dict_keys (sites s) @ new" by simp
  with a Inr show ?thesis by (cases err) (simp_all add: process_dcs_data_def)
qed

lemma dispatch_ws_keys:
  "\<exists>new. dict_keys (sites (fst (dispatch_ws env c data s))) = dict_keys (sites s) @ new"
proof (cases "is_dict data")
  case False
  then show ?thesis by (cases data) (simp_all add: dispatch_ws_def is_dict_def)
next
  case True
  then obtain d where d: "data = PDict d" by (cases data) (auto simp: is_dict_def)
  show ?thesis
    by (auto simp: d dispatch_ws_def Let_def py_in_def dict_keys_set
        split: sum.splits pyval.splits)
qed

lemma handle_ws_message_keys:
  "\<exists>new. dict_keys (sites (fst (handle_ws_message env c loaded s))) = dict_keys (sites s) @ new"
proof (cases loaded)
  case (Inl e)
  then show ?thesis by (simp add: handle_ws_message_def)
next
  case (Inr data)
  obtain s' fx err where a: "dispatch_ws env c data s = (s', fx, err)"
    by (cases "dispatch_ws env c data s")
  from dispatch_ws_keys [of env c data s] a
  have "\<exists>new. dict_keys (sites s') = dict_keys (sites s) @ new" by simp
  with a Inr show ?thesis by (cases err) (simp_all add: handle_ws_message_def)
qed

lemma handle_keys:
  "\<exists>new. dict_keys (sites (handle env ev s)) = dict_keys (sites s) @ new"
proof (cases ev)
  case (DcsDatagram loaded)
  then show ?thesis by (simp add: process_dcs_data_keys)
next
  case (WsMessage c loaded)
  then show ?thesis by (simp add: handle_ws_message_keys)
qed (simp_all add: ws_register_def ws_unregister_def)

lemma run_tasks_keys:
  "\<exists>new. dict_keys (sites (fst (run_tasks evs s))) = dict_keys (sites s) @ new"
proof (induction evs arbitrary: s)
  case Nil
  show ?case by simp
next
  case (Cons x evs)
  obtain env ev where x: "x = (env, ev)" by (cases x)
  from handle_keys [of env ev s] obtain n1 where
    a: "dict_keys (sites (handle env ev s)) = dict_keys (sites s) @ n1" by blast
  obtain s2 t where r: "run_tasks evs (handle env ev s) = (s2, t)"
    by (cases "run_tasks evs (handle env ev s)")
  from Cons.IH [of "handle env ev s"] r obtain n2 where
    b: "dict_keys (sites s2) = dict_keys (sites (handle env ev s)) @ n2" by auto
  show ?case by (simp add: x r a b)
qed

lemma broadcast_loop_keys:
  "\<exists>new. dict_keys (sites (fst (fst (broadcast_loop env during msg n pending touched (s, dead, fx))))) =
           dict_keys (sites s) @ new"
proof (induction pending arbitrary: touched s dead fx)
  case Nil
  show ?case by (cases "set_iter_next n touched s") simp_all
next
  case (Cons c pending)
  show ?case
  proof (cases "set_iter_next n touched s")
    case (Some e)
    then show ?thesis by simp
  next
    case None
    obtain s' t' where r: "run_tasks (during c) s = (s', t')" by (cases "run_tasks (during c) s")
    from run_tasks_keys [of "during c" s] r obtain n1 where
      a: "dict_keys (sites s') = dict_keys (sites s) @ n1" by auto
    let ?dead = "case client_send env c msg of Inr u \<Rightarrow> dead | Inl e \<Rightarrow> List.insert c dead"
    from Cons.IH [of t' s' ?dead "fx @ [WsSend c msg]"] obtain n2 where
      "dict_keys (sites (fst (fst (broadcast_loop env during msg n pending t'
          (s', ?dead, fx @ [WsSend c msg]))))) = dict_keys (sites s') @ n2"
      by blast
    then show ?thesis by (simp add: None r a)
  qed
qed

lemma broadcast_tick_keys:
  "\<exists>new. dict_keys (sites (fst (broadcast_tick env during s))) = dict_keys (sites s) @ new"
proof (cases "ws_clients s = []")
  case True
  then show ?thesis by (simp add: broadcast_tick_def)
next
  case False
  let ?st = "state_dict ''update'' s"
  let ?msg = "json_dumps env ?st"
  obtain s1 dead fx e where l:
    "broadcast_loop env during ?msg (length (ws_clients s)) (ws_clients s) False
       (s, [], [Snapshot ?st, Serialize ?st]) = ((s1, dead, fx), e)"
    by (metis prod.exhaust)
  from broadcast_loop_keys [where env = env and during = during and msg = ?msg
      and n = "length (ws_clients s)" and pending = "ws_clients s" and touched = False and s = s
      and dead = "[]" and fx = "[Snapshot ?st, Serialize ?st]"] l
  obtain new where "dict_keys (sites s1) = dict_keys (sites s) @ new" by auto
  with False l show ?thesis
    by (cases e) (auto simp: broadcast_tick_def Let_def)
qed

lemma step_keys:
  "\<exists>new. dict_keys (sites (step env ev s)) = dict_keys (sites s) @ new"
  by (cases ev) (simp_all add: handle_keys broadcast_tick_keys)

lemma run_keys:
  "\<exists>new. dict_keys (sites (run evs s)) = dict_keys (sites s) @ new"
proof (induction evs arbitrary: s)
  case Nil
  show ?case by simp
next
  case (Cons x evs)
  obtain env ev where x: "x = (env, ev)" by (cases x)
  from step_keys [of env ev s] obtain n1 where
    a: "dict_keys (sites (step env ev s)) = dict_keys (sites s) @ n1" by blast
  from Cons.IH [of "step env ev s"] obtain n2 where
    b: "dict_keys (sites (run evs (step env ev s))) = dict_keys (sites (step env ev s)) @ n2" by blast
  show ?case by (simp add: x a b)
qed

section \<open>Status updates of the interface's shape\<close>

lemma snapshot_entity_state_dict:
  "snapshot_entity (state_dict typ s) sid = map_option site_dict (dict_get (sites s) sid)"
  by (simp add: snapshot_entity_def state_dict_def dict_get_map)

lemma process_status_sites:
  assumes "status_update m"
  shows "sites (fst (process_dcs_data (Inr m) s)) = fst (update_sites (named_entities m) (sites s))"
proof -
  from assms obtain d where m: "m = PDict d" by (cases m) (auto simp: status_update_def)
  from assms have t: "dget d ''type'' (PStr '''') = PStr ''status''"
    by (simp add: m status_update_def)
  from assms have "is_dict (dget d ''sites'' (PDict []))" by (simp add: m status_update_def)
  then obtain items where i: "dget d ''sites'' (PDict []) = PDict items"
    by (cases "dget d ''sites'' (PDict [])") (auto simp: is_dict_def)
  have n: "named_entities (PDict d) = items" by (simp add: named_entities_def i)
  obtain sts err where u: "update_sites items (sites s) = (sts, err)"
    by (cases "update_sites items (sites s)")
  show ?thesis
    by (cases err) (simp_all add: n m t i u process_dcs_data_def dispatch_dcs_def apply_status_def)
qed

lemma status_update_entities:
  assumes "status_update m"
  shows "list_all (\<lambda>(sid, site_data). hashable sid \<and> is_dict site_data) (named_entities m)"
    and "distinct (map (\<lambda>(sid, site_data). key_class sid) (named_entities m))"
  using assms by (cases m; simp add: status_update_def)+

lemma process_status_entity:
  assumes "status_update m" and "(sid, PDict d) \<in> set (named_entities m)"
  shows "dict_get (sites (fst (process_dcs_data (Inr m) s))) sid =
           Some (update_site d (site_before (sites s) sid))"
  using update_sites_wf [OF status_update_entities [OF assms(1)] assms(2)]
  by (simp add: process_status_sites [OF assms(1)])

lemma site_dict_update_site:
  "site_dict (update_site d site) = PDict ((PStr ''siteId'', site_id site) # fields_of_payload d)"
  by (simp add: site_dict_def update_site_def fields_of_payload_def)

lemma status_S1_shape:
  "status_update status_S1" "(PStr ''S1'', PDict payload_S1) \<in> set (named_entities status_S1)"
  by (simp_all add: status_S1_def status_update_def named_entities_def dget_def is_dict_def
      hashable_def payload_S1_def)

lemma status_S1_full_sites:
  "sites (fst (process_dcs_data (Inr status_S1_full) init_server)) =
     [(PStr ''S1'', \<lparr> site_id = PStr ''S1'', system_state = PInt 3, radar_mode = PInt 2,
        antenna_az = PFloat (FVal 90), antenna_el = PFloat (FVal 30),
        targets = PList [PStr ''T1''], tracked_target = PDict [(PStr ''id'', PStr ''T1'')],
        track_quality = PInt 80, missiles_ready = PInt 2, missiles_in_flight = PInt 1,
        engagement_auth = PBool True, auto_engage = PBool True \<rparr>)]"
  by (simp add: status_S1_full_def init_server_def process_dcs_data_def dispatch_dcs_def
      apply_status_def dget_def py_in_def hashable_def new_site_def update_site_def)

section \<open>The claims\<close>

text \<open>
  Claim C1. After any earlier history (any sequence of updates and other events, from
  any state), when the last message is a \<^verbatim>\<open>status\<close> update of the interface's shape, the
  snapshot holds for each entity that the update names exactly the eleven fields that
  the update's payload for it determines (\<open>fields_of_payload\<close>: the value given, or the
  default): no field of an earlier update survives. Only the identifier kept in the
  record comes from before.
\<close>

theorem status_last_write_wins:
  assumes "status_update m" and "(sid, PDict d) \<in> set (named_entities m)"
  shows "snapshot_entity (state_dict typ (fst (process_dcs_data (Inr m) (run evs s)))) sid =
           Some (PDict ((PStr ''siteId'', site_id (site_before (sites (run evs s)) sid))
                        # fields_of_payload d))"
  by (simp add: snapshot_entity_state_dict process_status_entity [OF assms] site_dict_update_site)

theorem status_last_write_wins_witness:
  "status_update status_S1 \<and>
   (PStr ''S1'', PDict payload_S1) \<in> set (named_entities status_S1) \<and>
   snapshot_entity (state_dict ''update''
       (fst (process_dcs_data (Inr status_S1)
          (run [(ok_io, Task (DcsDatagram (Inr status_S1_full)))] init_server)))) (PStr ''S1'') =
     Some (PDict [ (PStr ''siteId'', PStr ''S1''),
                   (PStr ''systemState'', PInt 2),
                   (PStr ''radarMode'', PInt 1),
                   (PStr ''antennaAz'', PInt 0),
                   (PStr ''antennaEl'', PInt 5),
                   (PStr ''targets'', PList []),
                   (PStr ''tracked'', PNone),
                   (PStr ''trackQuality'', PInt 0),
                   (PStr ''missilesReady'', PInt 6),
                   (PStr ''missilesInFlight'', PInt 0),
                   (PStr ''engAuth'', PBool False),
                   (PStr ''autoEng'', PBool False) ])"
proof -
  have f: "fields_of_payload payload_S1 =
      [ (PStr ''systemState'', PInt 2), (PStr ''radarMode'', PInt 1),
        (PStr ''antennaAz'', PInt 0), (PStr ''antennaEl'', PInt 5),
        (PStr ''targets'', PList []), (PStr ''tracked'', PNone),
        (PStr ''trackQuality'', PInt 0), (PStr ''missilesReady'', PInt 6),
        (PStr ''missilesInFlight'', PInt 0), (PStr ''engAuth'', PBool False),
        (PStr ''autoEng'', PBool False) ]"
    by (simp add: fields_of_payload_def payload_S1_def dget_def)
  have b: "site_id (site_before (sites (run [(ok_io, Task (DcsDatagram (Inr status_S1_full)))] init_server))
             (PStr ''S1'')) = PStr ''S1''"
    by (simp add: status_S1_full_sites site_before_def)
  from status_last_write_wins [OF status_S1_shape,
      of "''update''" "[(ok_io, Task (DcsDatagram (Inr status_S1_full)))]" init_server]
  show ?thesis using status_S1_shape by (simp only: f b)
qed

text \<open>
  Claim C2. The code departs from the claim when another task changes the registry
  while the tick awaits a send. With subscribers 1, 2 and 3 registered and a subscriber
  4 connecting during the send to 1, the tick takes one snapshot, serialises it once,
  sends the payload to subscriber 1 alone, and ends with \<^verbatim>\<open>RuntimeError\<close> raised at the
  head of the loop: subscribers 2 and 3, both registered all along, are not sent the
  payload.
\<close>

theorem broadcast_aborted_by_connect:
  "ws_clients three_clients = [1, 2, 3] \<and>
   broadcast_tick ok_io connect_during_first three_clients =
     (three_clients\<lparr> ws_clients := [1, 2, 3, 4] \<rparr>,
      [ Snapshot (PDict [ (PStr ''type'', PStr ''update''),
                          (PStr ''dcsConnected'', PBool False),
                          (PStr ''missionTime'', PInt 0),
                          (PStr ''paused'', PBool False),
                          (PStr ''sites'', PDict []),
                          (PStr ''worldObjects'', PList []) ]),
        Serialize (PDict [ (PStr ''type'', PStr ''update''),
                           (PStr ''dcsConnected'', PBool False),
                           (PStr ''missionTime'', PInt 0),
                           (PStr ''paused'', PBool False),
                           (PStr ''sites'', PDict []),
                           (PStr ''worldObjects'', PList []) ]),
        WsSend 1 ''payload'' ],
      Raised RuntimeError)"
  by (simp add: three_clients_def init_server_def ok_io_def connect_during_first_def
      broadcast_tick_def set_iter_next_def state_dict_def ws_register_def Let_def)

text \<open>
  Claim C3, as amended. The command endpoint answers \<^verbatim>\<open>{success: true}\<close> whenever the
  request body decodes, whatever the datagram send did: \<^verbatim>\<open>send_to_dcs\<close> catches and logs
  the failure of the send and reports nothing to its caller. The endpoint answers
  \<^verbatim>\<open>{success: false, error: str(e)}\<close> exactly when decoding the body raised \<open>e\<close>, and then
  nothing is forwarded. The datagram reaches the socket exactly when the send succeeds.
\<close>

theorem api_command_result:
  "api_command env (Inr data) = (PDict [(PStr ''success'', PBool True)], send_to_dcs env data) \<and>
   api_command env (Inl e) =
     (PDict [(PStr ''success'', PBool False), (PStr ''error'', PStr (exn_str env e))], []) \<and>
   (UdpSend data \<in> set (send_to_dcs env data)) = (udp_sendto env data = Inr ())"
  by (cases "udp_sendto env data") (auto simp: api_command_def send_to_dcs_def)

text \<open>
  The claim as it was stated fails: with a socket whose send raises, the endpoint still
  answers that the command succeeded.
\<close>

theorem api_command_reports_success_on_failed_send:
  "udp_sendto failing_io (PDict []) = Inl OSError \<and>
   api_command failing_io (Inr (PDict [])) =
     (PDict [(PStr ''success'', PBool True)], [LogError ''Failed to send to DCS'' OSError])"
  by (simp add: failing_io_def api_command_def send_to_dcs_def)

text \<open>
  Claim C4. A datagram that fails to decode, and a decoded message whose discriminator
  is none of \<^verbatim>\<open>init\<close>, \<^verbatim>\<open>shutdown\<close>, \<^verbatim>\<open>status\<close> (also \<^verbatim>\<open>response\<close>, an unknown or missing
  type, a value that is not an object), leave the whole state as it was: connection
  flag, mission clock, pause flag, entity mapping, world objects. The function returns
  normally, and the flag \<^verbatim>\<open>running\<close> that the ingestion loop tests stays as it was, so the
  loop goes on.
\<close>

theorem unrecognised_datagram_ignored:
  assumes "unrecognised loaded"
  shows "fst (process_dcs_data loaded s) = s \<and>
         fst (udp_receiver_round (Some loaded) s) = s \<and>
         running (fst (udp_receiver_round (Some loaded) s)) = running s"
proof -
  have "fst (process_dcs_data loaded s) = s"
  proof (cases loaded)
    case (Inl e)
    then show ?thesis by (simp add: process_dcs_data_def)
  next
    case (Inr m)
    show ?thesis
    proof (cases "is_dict m")
      case False
      then show ?thesis
        by (cases m) (simp_all add: Inr process_dcs_data_def dispatch_dcs_def is_dict_def)
    next
      case True
      then obtain d where d: "m = PDict d" by (cases m) (auto simp: is_dict_def)
      from assms show ?thesis
        by (simp add: Inr d unrecognised_def discriminator_def process_dcs_data_def dispatch_dcs_def)
    qed
  qed
  then show ?thesis by (simp add: udp_receiver_round_def)
qed

theorem unrecognised_datagram_ignored_witness:
  "unrecognised (Inl JSONDecodeError) \<and>
   unrecognised (Inr (PDict [(PStr ''type'', PStr ''response'')])) \<and>
   fst (process_dcs_data (Inl JSONDecodeError) (fst (process_dcs_data (Inr status_S1) init_server)))
     = fst (process_dcs_data (Inr status_S1) init_server) \<and>
   fst (process_dcs_data (Inr (PDict [(PStr ''type'', PStr ''response'')])) init_server) = init_server"
proof -
  have a: "unrecognised (Inl JSONDecodeError)" by (simp add: unrecognised_def)
  have b: "unrecognised (Inr (PDict [(PStr ''type'', PStr ''response'')]))"
    by (simp add: unrecognised_def discriminator_def dget_def)
  from unrecognised_datagram_ignored [OF a] unrecognised_datagram_ignored [OF b] a b
  show ?thesis by blast
qed

text \<open>
  Claim C5. The code departs from the claim when the registry is changed while the tick
  iterates it. With subscribers 1, 2 and 3 registered, the send to 1 fails and, while
  the tick awaits that send, the handler of 1 ends and discards it from the registry.
  The failure of the send is caught, but the next step of the loop raises
  \<^verbatim>\<open>RuntimeError\<close> outside the \<^verbatim>\<open>try\<close>: the tick is aborted, subscribers 2 and 3 are not
  sent the payload, and the exception leaves the broadcast loop.
\<close>

theorem broadcast_aborted_by_disconnect:
  "ws_clients three_clients = [1, 2, 3] \<and>
   client_send first_closed 1 ''payload'' = Inl ConnectionClosed \<and>
   broadcast_tick first_closed disconnect_during_first three_clients =
     (three_clients\<lparr> ws_clients := [2, 3] \<rparr>,
      [ Snapshot (PDict [ (PStr ''type'', PStr ''update''),
                          (PStr ''dcsConnected'', PBool False),
                          (PStr ''missionTime'', PInt 0),
                          (PStr ''paused'', PBool False),
                          (PStr ''sites'', PDict []),
                          (PStr ''worldObjects'', PList []) ]),
        Serialize (PDict [ (PStr ''type'', PStr ''update''),
                           (PStr ''dcsConnected'', PBool False),
                           (PStr ''missionTime'', PInt 0),
                           (PStr ''paused'', PBool False),
                           (PStr ''sites'', PDict []),
                           (PStr ''worldObjects'', PList []) ]),
        WsSend 1 ''payload'' ],
      Raised RuntimeError)"
  by (simp add: three_clients_def init_server_def first_closed_def disconnect_during_first_def
      broadcast_tick_def set_iter_next_def state_dict_def ws_unregister_def Let_def)

text \<open>
  Claim C6. Whatever happens in a session (inbound datagrams of any kind, malformed
  ones, subscriber connections and messages, broadcast ticks, queries), the keys of the
  entity mapping after it are the keys before it followed by new ones: no key is
  removed, and an identifier that has a record, or an entry in a snapshot, still has
  one afterwards.
\<close>

theorem entities_never_removed:
  "(\<exists>new. dict_keys (sites (run evs s)) = dict_keys (sites s) @ new) \<and>
   (\<forall>sid. dict_get (sites s) sid \<noteq> None \<longrightarrow> dict_get (sites (run evs s)) sid \<noteq> None) \<and>
   (\<forall>sid typ typ'. snapshot_entity (state_dict typ s) sid \<noteq> None \<longrightarrow>
        snapshot_entity (state_dict typ' (run evs s)) sid \<noteq> None)"
proof -
  from run_keys [of evs s] obtain new where
    k: "dict_keys (sites (run evs s)) = dict_keys (sites s) @ new" by blast
  have p: "dict_get (sites (run evs s)) sid \<noteq> None" if "dict_get (sites s) sid \<noteq> None" for sid
    using that by (auto simp: dict_get_None_iff k)
  show ?thesis using k p by (simp add: snapshot_entity_state_dict)
qed

theorem entities_never_removed_witness:
  "dict_get (sites (fst (process_dcs_data (Inr status_S1) init_server))) (PStr ''S1'') \<noteq> None \<and>
   dict_get (sites (run session_after_S1 (fst (process_dcs_data (Inr status_S1) init_server))))
     (PStr ''S1'') \<noteq> None"
proof -
  have a: "dict_get (sites (fst (process_dcs_data (Inr status_S1) init_server))) (PStr ''S1'') \<noteq> None"
    using process_status_entity [OF status_S1_shape, of init_server] by simp
  from entities_never_removed [of session_after_S1 "fst (process_dcs_data (Inr status_S1) init_server)"] a
  show ?thesis by blast
qed

text \<open>
  Claim C7. The \<^verbatim>\<open>shutdown\<close> branch sets the connection flag to false and changes nothing
  else, the \<^verbatim>\<open>init\<close> branch sets it to true and changes nothing else; so \<^verbatim>\<open>shutdown\<close>
  followed by \<^verbatim>\<open>init\<close> yields the state before the two messages with the connection flag
  true: entity mapping, world objects, mission clock and pause flag are those of before.
\<close>

theorem shutdown_then_init:
  assumes "discriminator m1 = Some (PStr ''shutdown'')"
    and "discriminator m2 = Some (PStr ''init'')"
  shows "fst (process_dcs_data (Inr m1) s) = s\<lparr> dcs_connected := False \<rparr> \<and>
         fst (process_dcs_data (Inr m2) s) = s\<lparr> dcs_connected := True \<rparr> \<and>
         fst (process_dcs_data (Inr m2) (fst (process_dcs_data (Inr m1) s))) = s\<lparr> dcs_connected := True \<rparr>"
proof -
  from assms(1) obtain d1 where m1: "m1 = PDict d1" and t1: "dget d1 ''type'' (PStr '''') = PStr ''shutdown''"
    by (cases m1) (auto simp: discriminator_def)
  from assms(2) obtain d2 where m2: "m2 = PDict d2" and t2: "dget d2 ''type'' (PStr '''') = PStr ''init''"
    by (cases m2) (auto simp: discriminator_def)
  show ?thesis
    by (simp add: m1 m2 process_init [OF t2] process_shutdown [OF t1])
qed

theorem shutdown_then_init_witness:
  "discriminator (PDict [(PStr ''type'', PStr ''shutdown'')]) = Some (PStr ''shutdown'') \<and>
   discriminator (PDict [(PStr ''type'', PStr ''init'')]) = Some (PStr ''init'') \<and>
   fst (process_dcs_data (Inr (PDict [(PStr ''type'', PStr ''init'')]))
         (fst (process_dcs_data (Inr (PDict [(PStr ''type'', PStr ''shutdown'')])) init_server)))
     = init_server\<lparr> dcs_connected := True \<rparr>"
proof -
  have a: "discriminator (PDict [(PStr ''type'', PStr ''shutdown'')]) = Some (PStr ''shutdown'')"
    by (simp add: discriminator_def dget_def)
  have b: "discriminator (PDict [(PStr ''type'', PStr ''init'')]) = Some (PStr ''init'')"
    by (simp add: discriminator_def dget_def)
  from shutdown_then_init [OF a b, of init_server] a b show ?thesis by blast
qed

text \<open>
  Claim C8. From the initial state, the \<^verbatim>\<open>status\<close> datagram of the example (decoded:
  \<open>status_S1\<close>) followed by the status query gives exactly
  \<^verbatim>\<open>{"dcsConnected": true, "missionTime": 42, "paused": false, "sites": ["S1"]}\<close>.
\<close>

theorem status_query_example:
  "api_status (fst (process_dcs_data (Inr status_S1) init_server)) =
     PDict [ (PStr ''dcsConnected'', PBool True),
             (PStr ''missionTime'', PInt 42),
             (PStr ''paused'', PBool False),
             (PStr ''sites'', PList [PStr ''S1'']) ]"
  by (simp add: status_S1_def init_server_def process_dcs_data_def dispatch_dcs_def
      apply_status_def api_status_def dget_def py_in_def hashable_def dict_keys_def)

text \<open>
  Claim C9. For an \<^verbatim>\<open>init_site\<close> subscriber message that carries a (hashable) \<^verbatim>\<open>siteId\<close>:
  the command \<^verbatim>\<open>{cmd: init_site, siteId: <the identifier>, params: {groupName: <the
  group name>}}\<close> is handed to the Command Sink, which puts that datagram on the socket
  when the send does not raise and logs the failure when it does; afterwards the entity
  mapping has a record for the identifier: when the identifier was absent, a new record
  is appended that holds the identifier and the defaults of the dataclass (0, 0, 0.0,
  5.0, the empty list, \<^verbatim>\<open>None\<close>, 0, 6, 0, false, false); when it was present, the record,
  the mapping and the whole state are unchanged.
\<close>

theorem init_site_precreates:
  assumes "dget d ''type'' (PStr '''') = PStr ''init_site''"
    and "dict_get d (PStr ''siteId'') = Some sid"
    and "hashable sid"
  shows
    "let command =
           PDict [ (PStr ''cmd'', PStr ''init_site''),
                   (PStr ''siteId'', sid),
                   (PStr ''params'', PDict [(PStr ''groupName'', dget d ''groupName'' PNone)]) ];
         fresh =
           \<lparr> site_id = sid, system_state = PInt 0, radar_mode = PInt 0,
             antenna_az = PFloat (FVal 0), antenna_el = PFloat (FVal 5), targets = PList [],
             tracked_target = PNone, track_quality = PInt 0, missiles_ready = PInt 6,
             missiles_in_flight = PInt 0, engagement_auth = PBool False,
             auto_engage = PBool False \<rparr>
     in handle_ws_message env c (Inr (PDict d)) s =
          ((if dict_get (sites s) sid = None
            then s\<lparr> sites := sites s @ [(sid, fresh)] \<rparr> else s),
           (case udp_sendto env command of
              Inr u \<Rightarrow> [UdpSend command, LogDebug ''Sent to DCS'']
            | Inl e \<Rightarrow> [LogError ''Failed to send to DCS'' e])) \<and>
        dict_get (sites (fst (handle_ws_message env c (Inr (PDict d)) s))) sid =
          Some (case dict_get (sites s) sid of Some old \<Rightarrow> old | None \<Rightarrow> fresh) \<and>
        (UdpSend command \<in> set (snd (handle_ws_message env c (Inr (PDict d)) s))) =
          (udp_sendto env command = Inr ())"
proof -
  define command where "command =
           PDict [ (PStr ''cmd'', PStr ''init_site''),
                   (PStr ''siteId'', sid),
                   (PStr ''params'', PDict [(PStr ''groupName'', dget d ''groupName'' PNone)]) ]"
  define fresh where "fresh =
           \<lparr> site_id = sid, system_state = PInt 0, radar_mode = PInt 0,
             antenna_az = PFloat (FVal 0), antenna_el = PFloat (FVal 5), targets = PList [],
             tracked_target = PNone, track_quality = PInt 0, missiles_ready = PInt 6,
             missiles_in_flight = PInt 0, engagement_auth = PBool False,
             auto_engage = PBool False \<rparr>"
  from assms(2) have sid: "dget d ''siteId'' PNone = sid" by (simp add: dget_def)
  have cmd: "init_site_command sid (dget d ''groupName'' PNone) = command"
    by (simp add: command_def init_site_command_def)
  have fr: "new_site sid = fresh" by (simp add: fresh_def new_site_def)
  have sink: "send_to_dcs env command =
      (case udp_sendto env command of
         Inr u \<Rightarrow> [UdpSend command, LogDebug ''Sent to DCS'']
       | Inl e \<Rightarrow> [LogError ''Failed to send to DCS'' e])"
    by (simp add: send_to_dcs_def)
  have eq: "handle_ws_message env c (Inr (PDict d)) s =
           ((if dict_get (sites s) sid = None
             then s\<lparr> sites := sites s @ [(sid, fresh)] \<rparr> else s),
            send_to_dcs env command)"
    using handle_init_site [OF assms(1), of env c s] assms(3) by (simp add: sid cmd fr)
  have get: "dict_get (sites s @ [(sid, fresh)]) sid = Some fresh"
    if "dict_get (sites s) sid = None"
    using that dict_get_set [of "sites s" sid fresh sid] by (simp add: dict_set_append)
  have sent: "(UdpSend command \<in> set (send_to_dcs env command)) = (udp_sendto env command = Inr ())"
    by (cases "udp_sendto env command") (auto simp: send_to_dcs_def)
  have "handle_ws_message env c (Inr (PDict d)) s =
          ((if dict_get (sites s) sid = None
            then s\<lparr> sites := sites s @ [(sid, fresh)] \<rparr> else s),
           (case udp_sendto env command of
              Inr u \<Rightarrow> [UdpSend command, LogDebug ''Sent to DCS'']
            | Inl e \<Rightarrow> [LogError ''Failed to send to DCS'' e])) \<and>
        dict_get (sites (fst (handle_ws_message env c (Inr (PDict d)) s))) sid =
          Some (case dict_get (sites s) sid of Some old \<Rightarrow> old | None \<Rightarrow> fresh) \<and>
        (UdpSend command \<in> set (snd (handle_ws_message env c (Inr (PDict d)) s))) =
          (udp_sendto env command = Inr ())"
    unfolding sink [symmetric]
    by (cases "dict_get (sites s) sid") (simp_all add: eq get sent)
  then show ?thesis unfolding Let_def command_def fresh_def .
qed

theorem init_site_precreates_witness:
  "dget init_site_S1 ''type'' (PStr '''') = PStr ''init_site'' \<and>
   dict_get init_site_S1 (PStr ''siteId'') = Some (PStr ''S1'') \<and>
   hashable (PStr ''S1'') \<and>
   handle_ws_message ok_io 0 (Inr (PDict init_site_S1)) init_server =
     (init_server\<lparr> sites :=
        [(PStr ''S1'',
          \<lparr> site_id = PStr ''S1'', system_state = PInt 0, radar_mode = PInt 0,
            antenna_az = PFloat (FVal 0), antenna_el = PFloat (FVal 5), targets = PList [],
            tracked_target = PNone, track_quality = PInt 0, missiles_ready = PInt 6,
            missiles_in_flight = PInt 0, engagement_auth = PBool False,
            auto_engage = PBool False \<rparr>)] \<rparr>,
      [UdpSend (PDict [ (PStr ''cmd'', PStr ''init_site''),
                        (PStr ''siteId'', PStr ''S1''),
                        (PStr ''params'', PDict [(PStr ''groupName'', PStr ''SA2-1'')]) ]),
       LogDebug ''Sent to DCS''])"
proof -
  have a: "dget init_site_S1 ''type'' (PStr '''') = PStr ''init_site''"
    by (simp add: init_site_S1_def dget_def)
  have b: "dict_get init_site_S1 (PStr ''siteId'') = Some (PStr ''S1'')"
    by (simp add: init_site_S1_def)
  have c: "hashable (PStr ''S1'')" by (simp add: hashable_def)
  have g: "dget init_site_S1 ''groupName'' PNone = PStr ''SA2-1''"
    by (simp add: init_site_S1_def dget_def)
  have u: "udp_sendto ok_io x = Inr ()" for x by (simp add: ok_io_def)
  have n: "dict_get (sites init_server) (PStr ''S1'') = None" by (simp add: init_server_def)
  have i: "sites init_server = []" by (simp add: init_server_def)
  from init_site_precreates [OF a b c, of ok_io 0 init_server]
  have "handle_ws_message ok_io 0 (Inr (PDict init_site_S1)) init_server =
     (init_server\<lparr> sites :=
        [(PStr ''S1'',
          \<lparr> site_id = PStr ''S1'', system_state = PInt 0, radar_mode = PInt 0,
            antenna_az = PFloat (FVal 0), antenna_el = PFloat (FVal 5), targets = PList [],
            tracked_target = PNone, track_quality = PInt 0, missiles_ready = PInt 6,
            missiles_in_flight = PInt 0, engagement_auth = PBool False,
            auto_engage = PBool False \<rparr>)] \<rparr>,
      [UdpSend (PDict [ (PStr ''cmd'', PStr ''init_site''),
                        (PStr ''siteId'', PStr ''S1''),
                        (PStr ''params'', PDict [(PStr ''groupName'', PStr ''SA2-1'')]) ]),
       LogDebug ''Sent to DCS''])"
    by (simp add: Let_def g u n i)
  with a b c show ?thesis by blast
qed

text \<open>
  Claim C10. After a \<^verbatim>\<open>status\<close> update of the interface's shape, each entity that it
  names has a record in which every field that the entity's payload omits holds the
  fixed default of the \<^verbatim>\<open>status\<close> branch, whatever the record held before:
  \<^verbatim>\<open>systemState\<close> 0, \<^verbatim>\<open>radarMode\<close> 0, \<^verbatim>\<open>antennaAz\<close> 0, \<^verbatim>\<open>antennaEl\<close> 5, \<^verbatim>\<open>targets\<close> the empty list,
  \<^verbatim>\<open>tracked\<close> \<^verbatim>\<open>None\<close>, \<^verbatim>\<open>trackQuality\<close> 0, \<^verbatim>\<open>missilesReady\<close> 6, \<^verbatim>\<open>missilesInFlight\<close> 0,
  \<^verbatim>\<open>engAuth\<close> false, \<^verbatim>\<open>autoEng\<close> false.
\<close>

theorem omitted_fields_take_defaults:
  assumes "status_update m" and "(sid, PDict d) \<in> set (named_entities m)"
  shows "\<exists>site. dict_get (sites (fst (process_dcs_data (Inr m) s))) sid = Some site \<and>
     (dict_get d (PStr ''systemState'') = None \<longrightarrow> system_state site = PInt 0) \<and>
     (dict_get d (PStr ''radarMode'') = None \<longrightarrow> radar_mode site = PInt 0) \<and>
     (dict_get d (PStr ''antennaAz'') = None \<longrightarrow> antenna_az site = PInt 0) \<and>
     (dict_get d (PStr ''antennaEl'') = None \<longrightarrow> antenna_el site = PInt 5) \<and>
     (dict_get d (PStr ''targets'') = None \<longrightarrow> targets site = PList []) \<and>
     (dict_get d (PStr ''tracked'') = None \<longrightarrow> tracked_target site = PNone) \<and>
     (dict_get d (PStr ''trackQuality'') = None \<longrightarrow> track_quality site = PInt 0) \<and>
     (dict_get d (PStr ''missilesReady'') = None \<longrightarrow> missiles_ready site = PInt 6) \<and>
     (dict_get d (PStr ''missilesInFlight'') = None \<longrightarrow> missiles_in_flight site = PInt 0) \<and>
     (dict_get d (PStr ''engAuth'') = None \<longrightarrow> engagement_auth site = PBool False) \<and>
     (dict_get d (PStr ''autoEng'') = None \<longrightarrow> auto_engage site = PBool False)"
  by (simp add: process_status_entity [OF assms] update_site_def dget_def)

theorem omitted_fields_take_defaults_witness:
  "status_update status_S1 \<and>
   (PStr ''S1'', PDict payload_S1) \<in> set (named_entities status_S1) \<and>
   dict_get payload_S1 (PStr ''missilesReady'') = None \<and>
   dict_get payload_S1 (PStr ''antennaEl'') = None \<and>
   map_option missiles_ready
     (dict_get (sites (fst (process_dcs_data (Inr status_S1_full) init_server))) (PStr ''S1''))
     = Some (PInt 2) \<and>
   (\<exists>site. dict_get (sites (fst (process_dcs_data (Inr status_S1)
                (fst (process_dcs_data (Inr status_S1_full) init_server))))) (PStr ''S1'') = Some site \<and>
           missiles_ready site = PInt 6 \<and> antenna_el site = PInt 5)"
proof -
  have a: "dict_get payload_S1 (PStr ''missilesReady'') = None"
    and b: "dict_get payload_S1 (PStr ''antennaEl'') = None"
    by (simp_all add: payload_S1_def)
  have c: "map_option missiles_ready
     (dict_get (sites (fst (process_dcs_data (Inr status_S1_full) init_server))) (PStr ''S1''))
     = Some (PInt 2)"
    by (simp add: status_S1_full_sites)
  from omitted_fields_take_defaults [OF status_S1_shape,
      of "fst (process_dcs_data (Inr status_S1_full) init_server)"] a b
  have "\<exists>site. dict_get (sites (fst (process_dcs_data (Inr status_S1)
                (fst (process_dcs_data (Inr status_S1_full) init_server))))) (PStr ''S1'') = Some site \<and>
           missiles_ready site = PInt 6 \<and> antenna_el site = PInt 5"
    by blast
  with status_S1_shape a b c show ?thesis by blast
qed

end
